theory Spec2Isabelle
  imports Complex_Main "HOL-Library.AList"
begin

section \<open>Python values, exceptions and data frames\<close>

text \<open>
  Every \<^verbatim>\<open>raise\<close> of the source is a value of \<open>exn\<close>; a function that may raise returns
  \<open>exn + 'a\<close> with \<open>Inl\<close> carrying the exception. \<open>EmptyDataError\<close> and \<open>OtherError\<close>
  stand for what the libraries (\<^verbatim>\<open>pandas.read_csv\<close>, \<^verbatim>\<open>pickle\<close>, the classifiers) raise on their
  own.
\<close>

datatype exn =
    ValueError string
  | FileNotFoundError string
  | KeyError string
  | RuntimeError string
  | TypeError string
  | NotImplementedError string
  | AttributeError string
  | EmptyDataError string
  | OtherError string

text \<open>
  A cell of a table. The weights are Python floats; the code only stores and compares
  them and never computes with them, so they are carried as reals.
\<close>

datatype cell = IntCell int | FloatCell real | StrCell string

text \<open>
  A \<^verbatim>\<open>pandas.DataFrame\<close>: its column labels in order, and its rows in index order, each row
  giving the cell under a label (a label a row does not mention reads as a missing value,
  pandas' NaN). The row index itself is not modelled: every use in the source is
  positional, and \<^verbatim>\<open>pd.concat(..., ignore_index=True)\<close> renumbers it. Column labels of one
  frame are taken to be distinct, as \<^verbatim>\<open>read_csv\<close> makes them, and the dtype of a column is
  the one \<^verbatim>\<open>read_csv\<close> infers from its cells (see \<open>common_dtype\<close> below).
\<close>

type_synonym row = "(string \<times> cell) list"

record DataFrame =
  columns :: "string list"
  rows :: "row list"

text \<open>\<^verbatim>\<open>len(df)\<close>: the length of the row axis.\<close>

definition row_count :: "DataFrame \<Rightarrow> nat" where
  "row_count df = length (rows df)"

text \<open>
  \<^verbatim>\<open>df.empty\<close>: pandas returns True when any axis has length 0, so a frame with rows and
  no column is empty as well as a frame with columns and no row.
\<close>

definition df_empty :: "DataFrame \<Rightarrow> bool" where
  "df_empty df \<longleftrightarrow> rows df = [] \<or> columns df = []"

text \<open>
  \<^verbatim>\<open>df[c] = v\<close> with a scalar \<open>v\<close>: an existing column keeps its position and is overwritten
  in every row, a new one is appended as the last column.
\<close>

definition set_column :: "string \<Rightarrow> cell \<Rightarrow> DataFrame \<Rightarrow> DataFrame" where
  "set_column c v df =
     \<lparr>columns = (if c \<in> set (columns df) then columns df else columns df @ [c]),
      rows = map (AList.update c v) (rows df)\<rparr>"

text \<open>
  The conversion of an integer to a 64-bit float, as numpy does it when it upcasts an
  \<^verbatim>\<open>int64\<close> column: round to nearest, ties to even, on a significand of 53 bits. Integers
  up to \<open>2^53\<close> in absolute value are kept; an \<^verbatim>\<open>int64\<close> is below \<open>2^63\<close>, so the result
  is always finite. \<open>bit_length\<close> is Python's \<^verbatim>\<open>int.bit_length\<close>.
\<close>

fun bit_length :: "nat \<Rightarrow> nat" where
  "bit_length n = (if n = 0 then 0 else Suc (bit_length (n div 2)))"

declare bit_length.simps [simp del]

definition round_to_53_bits :: "nat \<Rightarrow> nat" where
  "round_to_53_bits m =
     (let k = bit_length m - 53; q = m div 2 ^ k; r = m mod 2 ^ k
      in if 2 * r > 2 ^ k \<or> (2 * r = 2 ^ k \<and> odd q) then (q + 1) * 2 ^ k else q * 2 ^ k)"

definition float64_of_int :: "int \<Rightarrow> real" where
  "float64_of_int n =
     (if n < 0 then - real (round_to_53_bits (nat (- n))) else real (round_to_53_bits (nat n)))"

text \<open>
  The dtype of a column, as \<^verbatim>\<open>read_csv\<close> infers it and as \<^verbatim>\<open>pd.concat\<close> finds the common
  dtype of the pieces of a column: \<^verbatim>\<open>object\<close> when a cell is a string, \<^verbatim>\<open>int64\<close> when every
  cell is an integer, and \<^verbatim>\<open>float64\<close> otherwise, that is for numbers of which one is a
  float or is missing.
\<close>

datatype dtype = Int64 | Float64 | Object

fun is_str :: "cell option \<Rightarrow> bool" where
  "is_str (Some (StrCell s)) = True"
| "is_str _ = False"

fun is_int :: "cell option \<Rightarrow> bool" where
  "is_int (Some (IntCell n)) = True"
| "is_int _ = False"

definition common_dtype :: "cell option list \<Rightarrow> dtype" where
  "common_dtype cells =
     (if list_ex is_str cells then Object
      else if list_all is_int cells then Int64
      else Float64)"

fun upcast :: "cell \<Rightarrow> cell" where
  "upcast (IntCell n) = FloatCell (float64_of_int n)"
| "upcast (FloatCell x) = FloatCell x"
| "upcast (StrCell s) = StrCell s"

definition cast_row :: "string list \<Rightarrow> row \<Rightarrow> row" where
  "cast_row float_columns r =
     map (\<lambda>(c, v). (c, if c \<in> set float_columns then upcast v else v)) r"

text \<open>
  \<^verbatim>\<open>pd.concat(dfs, ignore_index=True)\<close> (axis 0, outer join, no sorting): the rows of the
  frames one after the other, under the union of the column labels in order of first
  appearance. A column some frame lacks is filled with missing values there, and each
  column takes the common dtype of its cells: in a column that becomes \<^verbatim>\<open>float64\<close> the
  integer cells are converted to floats.
\<close>

definition union_labels :: "string list \<Rightarrow> string list \<Rightarrow> string list" where
  "union_labels acc cs = foldl (\<lambda>a c. if c \<in> set a then a else a @ [c]) acc cs"

definition pd_concat :: "DataFrame list \<Rightarrow> DataFrame" where
  "pd_concat dfs =
     (let labels = foldl union_labels [] (map columns dfs);
          all_rows = concat (map rows dfs);
          float_columns =
            filter (\<lambda>c. common_dtype (map (\<lambda>r. map_of r c) all_rows) = Float64) labels
      in \<lparr>columns = labels, rows = map (cast_row float_columns) all_rows\<rparr>)"

text \<open>
  \<^verbatim>\<open>df.drop(c, axis=1)\<close> raises \<^verbatim>\<open>KeyError("['c'] not found in axis")\<close> when the label is
  absent; \<^verbatim>\<open>df[c]\<close> raises \<^verbatim>\<open>KeyError('c')\<close> then, and otherwise gives the column as a
  series (\<open>None\<close> is a missing value). \<open>KeyError\<close> carries the argument of the exception,
  and \<open>py_repr\<close> is Python's \<^verbatim>\<open>repr\<close> of a string without quotes or backslashes.
\<close>

definition py_repr :: "string \<Rightarrow> string" where
  "py_repr s = [CHR 0x27] @ s @ [CHR 0x27]"

definition drop_column :: "string \<Rightarrow> DataFrame \<Rightarrow> exn + DataFrame" where
  "drop_column c df =
     (if c \<in> set (columns df)
      then Inr \<lparr>columns = removeAll c (columns df), rows = map (AList.delete c) (rows df)\<rparr>
      else Inl (KeyError (''['' @ py_repr c @ ''] not found in axis'')))"

definition get_column :: "string \<Rightarrow> DataFrame \<Rightarrow> exn + cell option list" where
  "get_column c df =
     (if c \<in> set (columns df) then Inr (map (\<lambda>r. map_of r c) (rows df))
      else Inl (KeyError c))"

section \<open>feature\_engineering.py\<close>

text \<open>
  A \<^verbatim>\<open>Dict[int, DataFrame]\<close> is an association list in insertion order: \<^verbatim>\<open>keys()\<close> is
  \<open>map fst\<close>, \<^verbatim>\<open>items()\<close> is the list itself.
\<close>

type_synonym year_tables = "(int \<times> DataFrame) list"

text \<open>
  The Python slice \<^verbatim>\<open>xs[start:]\<close>: a negative start counts from the end, and the start is
  clamped to the list. In particular \<^verbatim>\<open>xs[-0:]\<close> is \<^verbatim>\<open>xs[0:]\<close>, the whole list.
\<close>

definition slice_from :: "int \<Rightarrow> 'a list \<Rightarrow> 'a list" where
  "slice_from start xs =
     (let n = int (length xs);
          s = (if start < 0 then max (start + n) 0 else min start n)
      in drop (nat s) xs)"

text \<open>
  \<^verbatim>\<open>recent_years = years[-emphasis_years:] if len(years) >= emphasis_years else years\<close>
\<close>

definition recent_years :: "int \<Rightarrow> int list \<Rightarrow> int list" where
  "recent_years emphasis_years years =
     (if int (length years) \<ge> emphasis_years then slice_from (- emphasis_years) years
      else years)"

text \<open>
  The body of the \<^verbatim>\<open>for year, df in data_by_year.items()\<close> loop, and the loop with its
  accumulator \<^verbatim>\<open>weighted_dfs\<close>.
\<close>

definition stamp :: "int list \<Rightarrow> real \<Rightarrow> real \<Rightarrow> int \<Rightarrow> DataFrame \<Rightarrow> DataFrame" where
  "stamp recent base_weight emphasis_weight year df =
     (let year_df = set_column ''year'' (IntCell year) df;
          weight = (if year \<in> set recent then emphasis_weight else base_weight)
      in set_column ''weight'' (FloatCell weight) year_df)"

fun stamp_loop ::
  "int list \<Rightarrow> real \<Rightarrow> real \<Rightarrow> year_tables \<Rightarrow> DataFrame list \<Rightarrow> DataFrame list" where
  "stamp_loop recent bw ew [] weighted_dfs = weighted_dfs"
| "stamp_loop recent bw ew ((year, df) # items) weighted_dfs =
     (if \<not> df_empty df
      then stamp_loop recent bw ew items (weighted_dfs @ [stamp recent bw ew year df])
      else stamp_loop recent bw ew items weighted_dfs)"

definition weight_by_recency :: "year_tables \<Rightarrow> int \<Rightarrow> real \<Rightarrow> real \<Rightarrow> exn + DataFrame" where
  "weight_by_recency data_by_year emphasis_years base_weight emphasis_weight =
     (if data_by_year = [] then Inl (ValueError ''No data provided'')
      else
        let years = sort (map fst data_by_year);
            recent = recent_years emphasis_years years;
            weighted_dfs = stamp_loop recent base_weight emphasis_weight data_by_year []
        in if weighted_dfs = [] then Inl (ValueError ''No valid data frames to combine'')
           else Inr (pd_concat weighted_dfs))"

text \<open>
  \<^verbatim>\<open>create_team_features\<close>: the rankings are weighted when the argument is a non-empty
  mapping (\<^verbatim>\<open>if rankings_by_year:\<close>), and the result of that call is dropped.
  \<^verbatim>\<open>weight_by_recency\<close> is called with its default weights 1.0 and 2.0.
\<close>

definition create_team_features ::
  "year_tables \<Rightarrow> year_tables option \<Rightarrow> int \<Rightarrow> exn + DataFrame" where
  "create_team_features team_stats_by_year rankings_by_year emphasis_years =
     (case weight_by_recency team_stats_by_year emphasis_years 1 2 of
        Inl err \<Rightarrow> Inl err
      | Inr weighted_stats \<Rightarrow>
          (case rankings_by_year of
             None \<Rightarrow> Inr weighted_stats
           | Some rankings \<Rightarrow>
               if rankings \<noteq> [] then
                 (case weight_by_recency rankings emphasis_years 1 2 of
                    Inl err \<Rightarrow> Inl err
                  | Inr weighted_rankings \<Rightarrow> Inr weighted_stats)
               else Inr weighted_stats))"

definition create_matchup_features ::
  "DataFrame \<Rightarrow> year_tables \<Rightarrow> int \<Rightarrow> exn + DataFrame" where
  "create_matchup_features team_features games_by_year emphasis_years =
     (case weight_by_recency games_by_year emphasis_years 1 2 of
        Inl err \<Rightarrow> Inl err
      | Inr weighted_games \<Rightarrow> Inr weighted_games)"

text \<open>
  \<^verbatim>\<open>{year: df for year, df in d.items() if year in target_years}\<close>
\<close>

definition filter_years :: "int list \<Rightarrow> year_tables \<Rightarrow> year_tables" where
  "filter_years target_years d = filter (\<lambda>(year, df). year \<in> set target_years) d"

definition prepare_training_data ::
  "year_tables \<Rightarrow> year_tables \<Rightarrow> year_tables \<Rightarrow> int list
     \<Rightarrow> exn + (DataFrame \<times> cell option list)" where
  "prepare_training_data team_stats_by_year rankings_by_year games_by_year target_years =
     (let filtered_stats = filter_years target_years team_stats_by_year;
          filtered_rankings = filter_years target_years rankings_by_year;
          filtered_games = filter_years target_years games_by_year
      in case create_team_features filtered_stats (Some filtered_rankings) 2 of
           Inl err \<Rightarrow> Inl err
         | Inr team_features \<Rightarrow>
             (case create_matchup_features team_features filtered_games 2 of
                Inl err \<Rightarrow> Inl err
              | Inr matchup_features \<Rightarrow>
                  (case drop_column ''outcome'' matchup_features of
                     Inl err \<Rightarrow> Inl err
                   | Inr X \<Rightarrow>
                       (case get_column ''outcome'' matchup_features of
                          Inl err \<Rightarrow> Inl err
                        | Inr y \<Rightarrow> Inr (X, y)))))"

section \<open>data\_loader.py\<close>

text \<open>
  \<^verbatim>\<open>f"{year}"\<close>: the decimal digits of an integer, with a minus sign when it is negative.
\<close>

fun nat_digits :: "nat \<Rightarrow> string" where
  "nat_digits n =
     (if n < 10 then [''0123456789'' ! n]
      else nat_digits (n div 10) @ [''0123456789'' ! (n mod 10)])"

declare nat_digits.simps [simp del]

definition str_int :: "int \<Rightarrow> string" where
  "str_int i = (if i < 0 then ''-'' @ nat_digits (nat (- i)) else nat_digits (nat i))"

text \<open>\<^verbatim>\<open>os.path.join\<close> on POSIX, for two components; a longer join folds it from the left.\<close>

definition path_join :: "string \<Rightarrow> string \<Rightarrow> string" where
  "path_join a b =
     (if b \<noteq> [] \<and> hd b = CHR ''/'' then b
      else if a = [] \<or> last a = CHR ''/'' then a @ b
      else a @ ''/'' @ b)"

text \<open>
  The files the loaders see: \<open>None\<close> when \<^verbatim>\<open>os.path.exists\<close> is false for the path, and
  otherwise what \<^verbatim>\<open>pd.read_csv\<close> does on it, the parsed frame or the exception it raises
  (an empty file, for one, makes it raise \<^verbatim>\<open>EmptyDataError\<close>).
\<close>

type_synonym files = "string \<Rightarrow> (exn + DataFrame) option"

type_synonym loader = "files \<Rightarrow> int \<Rightarrow> string \<Rightarrow> exn + DataFrame"

definition load_team_stats :: loader where
  "load_team_stats fs year data_dir =
     (let file_path = path_join (path_join data_dir (str_int year)) ''team_stats.csv''
      in case fs file_path of
           Some read_csv \<Rightarrow> read_csv
         | None \<Rightarrow>
             Inl (FileNotFoundError (''Team stats file not found for year '' @ str_int year)))"

definition load_rankings :: loader where
  "load_rankings fs year data_dir =
     (let file_path = path_join (path_join data_dir (str_int year)) ''rankings.csv''
      in case fs file_path of
           Some read_csv \<Rightarrow> read_csv
         | None \<Rightarrow>
             Inl (FileNotFoundError (''Rankings file not found for year '' @ str_int year)))"

definition load_game_results :: loader where
  "load_game_results fs year data_dir =
     (let file_path = path_join (path_join data_dir (str_int year)) ''games.csv''
      in case fs file_path of
           Some read_csv \<Rightarrow> read_csv
         | None \<Rightarrow>
             Inl (FileNotFoundError (''Game results file not found for year '' @ str_int year)))"

definition load_tournament_data :: loader where
  "load_tournament_data fs year data_dir =
     (let file_path = path_join (path_join data_dir (str_int year)) ''tournament.csv''
      in case fs file_path of
           Some read_csv \<Rightarrow> read_csv
         | None \<Rightarrow>
             Inl (FileNotFoundError (''Tournament file not found for year '' @ str_int year)))"

definition loaders :: "(string \<times> loader) list" where
  "loaders =
     [(''team_stats'', load_team_stats), (''rankings'', load_rankings),
      (''games'', load_game_results), (''tournament'', load_tournament_data)]"

text \<open>
  The loop of \<^verbatim>\<open>load_multi_year_data\<close>, threading the dictionary \<^verbatim>\<open>result\<close> and the lines
  printed so far. \<^verbatim>\<open>result[year] = df\<close> overwrites the entry of a year already present and
  appends a new one; only \<^verbatim>\<open>FileNotFoundError\<close> is caught, any other exception leaves
  the function.
\<close>

fun load_years ::
  "files \<Rightarrow> loader \<Rightarrow> string \<Rightarrow> int list \<Rightarrow> year_tables \<Rightarrow> string list
     \<Rightarrow> string list \<times> (exn + year_tables)" where
  "load_years fs ld data_dir [] result printed = (printed, Inr result)"
| "load_years fs ld data_dir (year # years) result printed =
     (case ld fs year data_dir of
        Inr df \<Rightarrow> load_years fs ld data_dir years (AList.update year df result) printed
      | Inl (FileNotFoundError e) \<Rightarrow>
          load_years fs ld data_dir years result (printed @ [''Warning: '' @ e])
      | Inl err \<Rightarrow> (printed, Inl err))"

text \<open>The function returns the lines it printed together with its result.\<close>

definition load_multi_year_data ::
  "files \<Rightarrow> int list \<Rightarrow> string \<Rightarrow> string \<Rightarrow> string list \<times> (exn + year_tables)" where
  "load_multi_year_data fs years data_type data_dir =
     (case map_of loaders data_type of
        None \<Rightarrow>
          ([], Inl (ValueError (''Unknown data type: '' @ data_type @
             ''. Must be one of ['team_stats', 'rankings', 'games', 'tournament']'')))
      | Some ld \<Rightarrow> load_years fs ld data_dir years [] [])"

section \<open>model\_factory.py\<close>

datatype model_class =
  BaseModel | BaselineModel | RandomForestModel | GradientBoostingModel | SVMModel

definition class_name :: "model_class \<Rightarrow> string" where
  "class_name c =
     (case c of BaseModel \<Rightarrow> ''BaseModel'' | BaselineModel \<Rightarrow> ''BaselineModel''
      | RandomForestModel \<Rightarrow> ''RandomForestModel''
      | GradientBoostingModel \<Rightarrow> ''GradientBoostingModel'' | SVMModel \<Rightarrow> ''SVMModel'')"

text \<open>
  A model object: its class and the three attributes \<^verbatim>\<open>__init__\<close> sets. The parameters
  are a dictionary of keyword arguments, \<open>'est\<close> is the type of the wrapped classifiers.
\<close>

record ('v, 'est) model_obj =
  py_class :: model_class
  model_params :: "(string \<times> 'v) list"
  model :: "'est option"
  is_trained :: bool

text \<open>
  The classification library, as far as the models use it: building a classifier from
  keyword arguments, \<^verbatim>\<open>fit\<close> (which returns the fitted classifier), \<^verbatim>\<open>predict\<close>, and the
  four scores of \<^verbatim>\<open>evaluate\<close> taken together. Each of them may raise.
\<close>

record ('v, 'est, 'x, 'y, 'r) sklearn =
  new_classifier :: "model_class \<Rightarrow> (string \<times> 'v) list \<Rightarrow> exn + 'est"
  fit :: "'est \<Rightarrow> 'x \<Rightarrow> 'y \<Rightarrow> exn + 'est"
  classifier_predict :: "'est \<Rightarrow> 'x \<Rightarrow> exn + 'r"
  scores :: "'y \<Rightarrow> 'r \<Rightarrow> exn + (string \<times> real) list"

text \<open>\<^verbatim>\<open>BaseModel.__init__\<close>, run by every subclass: \<^verbatim>\<open>model_params or {}\<close>.\<close>

definition init :: "model_class \<Rightarrow> (string \<times> 'v) list option \<Rightarrow> ('v, 'est) model_obj" where
  "init c model_params' =
     \<lparr>py_class = c,
      model_params = (case model_params' of None \<Rightarrow> [] | Some p \<Rightarrow> p),
      model = None,
      is_trained = False\<rparr>"

text \<open>
  \<^verbatim>\<open>train\<close> mutates the object: it returns the outcome and the object afterwards. When
  \<^verbatim>\<open>fit\<close> raises, \<^verbatim>\<open>self.model\<close> is already assigned and \<^verbatim>\<open>is_trained\<close> is still False.
\<close>

definition train ::
  "('v, 'est, 'x, 'y, 'r) sklearn \<Rightarrow> ('v, 'est) model_obj \<Rightarrow> 'x \<Rightarrow> 'y
     \<Rightarrow> (exn + unit) \<times> ('v, 'est) model_obj" where
  "train lib self X y =
     (if py_class self = BaseModel
      then (Inl (NotImplementedError ''Subclasses must implement train method''), self)
      else
        case new_classifier lib (py_class self) (model_params self) of
          Inl err \<Rightarrow> (Inl err, self)
        | Inr est \<Rightarrow>
            (case fit lib est X y of
               Inl err \<Rightarrow> (Inl err, self\<lparr>model := Some est\<rparr>)
             | Inr fitted \<Rightarrow> (Inr (), self\<lparr>model := Some fitted, is_trained := True\<rparr>)))"

definition predict_impl ::
  "('v, 'est, 'x, 'y, 'r) sklearn \<Rightarrow> ('v, 'est) model_obj \<Rightarrow> 'x \<Rightarrow> exn + 'r" where
  "predict_impl lib self X =
     (if py_class self = BaseModel
      then Inl (NotImplementedError ''Subclasses must implement _predict_impl method'')
      else
        case model self of
          None \<Rightarrow> Inl (AttributeError ''predict'')
        | Some est \<Rightarrow> classifier_predict lib est X)"

definition predict ::
  "('v, 'est, 'x, 'y, 'r) sklearn \<Rightarrow> ('v, 'est) model_obj \<Rightarrow> 'x \<Rightarrow> exn + 'r" where
  "predict lib self X =
     (if \<not> is_trained self
      then Inl (RuntimeError ''Model must be trained before making predictions'')
      else predict_impl lib self X)"

definition evaluate ::
  "('v, 'est, 'x, 'y, 'r) sklearn \<Rightarrow> ('v, 'est) model_obj \<Rightarrow> 'x \<Rightarrow> 'y
     \<Rightarrow> exn + (string \<times> real) list" where
  "evaluate lib self X y =
     (if \<not> is_trained self
      then Inl (RuntimeError ''Model must be trained before evaluation'')
      else
        case predict lib self X of
          Inl err \<Rightarrow> Inl err
        | Inr y_pred \<Rightarrow> scores lib y y_pred)"

text \<open>
  \<^verbatim>\<open>save\<close>: after the check, \<^verbatim>\<open>os.makedirs\<close>, \<^verbatim>\<open>open\<close> and \<^verbatim>\<open>pickle.dump\<close> act on the
  file system; \<open>dump\<close> stands for the three together, on a state \<open>'st\<close> that \<open>save\<close>
  threads.
\<close>

definition save ::
  "(string \<Rightarrow> ('v, 'est) model_obj \<Rightarrow> 'st \<Rightarrow> (exn + unit) \<times> 'st)
     \<Rightarrow> ('v, 'est) model_obj \<Rightarrow> string \<Rightarrow> 'st \<Rightarrow> (exn + unit) \<times> 'st" where
  "save dump self filepath st =
     (if \<not> is_trained self then (Inl (RuntimeError ''Cannot save untrained model''), st)
      else dump filepath self st)"

text \<open>
  What \<^verbatim>\<open>pickle.load\<close> can give back: a model object, or any other Python object.
  \<^verbatim>\<open>isinstance(obj, cls)\<close>: every model class derives directly from \<^verbatim>\<open>BaseModel\<close>.
\<close>

datatype ('v, 'est) py_object = ModelObject "('v, 'est) model_obj" | OtherObject string

definition isinstance :: "('v, 'est) py_object \<Rightarrow> model_class \<Rightarrow> bool" where
  "isinstance obj c =
     (case obj of
        ModelObject m \<Rightarrow> py_class m = c \<or> c = BaseModel
      | OtherObject _ \<Rightarrow> False)"

text \<open>
  The class method \<^verbatim>\<open>load\<close>, called on the class \<open>c\<close>; \<open>unpickle\<close> stands for \<^verbatim>\<open>open\<close> and
  \<^verbatim>\<open>pickle.load\<close> on the path.
\<close>

definition load ::
  "(string \<Rightarrow> exn + ('v, 'est) py_object) \<Rightarrow> model_class \<Rightarrow> string
     \<Rightarrow> exn + ('v, 'est) py_object" where
  "load unpickle c filepath =
     (case unpickle filepath of
        Inl err \<Rightarrow> Inl err
      | Inr obj \<Rightarrow>
          if \<not> isinstance obj c
          then Inl (TypeError (''Loaded model is not an instance of '' @ class_name c))
          else Inr obj)"

definition model_classes :: "(string \<times> model_class) list" where
  "model_classes =
     [(''baseline'', BaselineModel), (''random_forest'', RandomForestModel),
      (''gradient_boosting'', GradientBoostingModel), (''svm'', SVMModel)]"

definition create_model ::
  "string \<Rightarrow> (string \<times> 'v) list option \<Rightarrow> exn + ('v, 'est) model_obj" where
  "create_model model_type model_params' =
     (case map_of model_classes model_type of
        None \<Rightarrow>
          Inl (ValueError (''Unknown model type: '' @ model_type @
            ''. Must be one of ['baseline', 'random_forest', 'gradient_boosting', 'svm']''))
      | Some c \<Rightarrow> Inr (init c model_params'))"

section \<open>The specification's notions and example data\<close>

text \<open>
  The emphasis window in the specification's words: the suffix of the ascending-sorted
  year list of length \<open>min(emphasis_years, |years|)\<close> (no year when that number is not
  positive).
\<close>

definition emphasis_window :: "int \<Rightarrow> int list \<Rightarrow> int list" where
  "emphasis_window emphasis_years years =
     (let k = nat (min emphasis_years (int (length years)))
      in drop (length years - k) years)"

text \<open>
  The stamped rows in the specification's order: the rows of the non-empty tables, table
  after table in the order of the mapping's entries and row after row within a table,
  each with its year and its weight set.
\<close>

definition stamped_rows :: "int list \<Rightarrow> real \<Rightarrow> real \<Rightarrow> year_tables \<Rightarrow> row list" where
  "stamped_rows recent base_weight emphasis_weight d =
     concat (map (\<lambda>(y, df).
        map (\<lambda>r. AList.update ''weight''
                    (FloatCell (if y \<in> set recent then emphasis_weight else base_weight))
                    (AList.update ''year'' (IntCell y) r)) (rows df))
       (filter (\<lambda>(y, df). \<not> df_empty df) d))"



text \<open>The sum of the row counts of all tables of a mapping.\<close>

definition total_rows :: "year_tables \<Rightarrow> nat" where
  "total_rows d = sum_list (map (row_count \<circ> snd) d)"

definition team_table :: DataFrame where
  "team_table = \<lparr>columns = [''team''], rows = [[(''team'', StrCell ''A'')]]\<rparr>"

definition no_row_table :: DataFrame where
  "no_row_table = \<lparr>columns = [''team''], rows = []\<rparr>"

text \<open>\<^verbatim>\<open>pd.DataFrame(index=range(2))\<close>: two rows, no column.\<close>

definition no_column_table :: DataFrame where
  "no_column_table = \<lparr>columns = [], rows = [[], []]\<rparr>"

definition four_years :: year_tables where
  "four_years = [(2020, team_table), (2021, team_table), (2022, team_table), (2023, team_table)]"

definition games_table :: DataFrame where
  "games_table =
     \<lparr>columns = [''team'', ''outcome''],
      rows = [[(''team'', StrCell ''A''), (''outcome'', IntCell 1)],
              [(''team'', StrCell ''B''), (''outcome'', IntCell 0)]]\<rparr>"

text \<open>Tables that differ in their columns, entered out of year order.\<close>

definition mixed_years :: year_tables where
  "mixed_years = [(2021, team_table), (2019, no_row_table), (2020, games_table)]"

text \<open>
  The warnings the specification asks for: one line per requested year whose retrieval
  signalled not-found, in the order of the request.
\<close>

definition skipped_warnings :: "files \<Rightarrow> loader \<Rightarrow> string \<Rightarrow> int list \<Rightarrow> string list" where
  "skipped_warnings fs ld data_dir years =
     concat (map (\<lambda>year. case ld fs year data_dir of
                            Inl (FileNotFoundError e) \<Rightarrow> [''Warning: '' @ e]
                          | _ \<Rightarrow> []) years)"

text \<open>The variant of a deserialized object; an object that is no model has none.\<close>

definition variant_of :: "('v, 'est) py_object \<Rightarrow> model_class option" where
  "variant_of obj = (case obj of ModelObject m \<Rightarrow> Some (py_class m) | OtherObject _ \<Rightarrow> None)"

text \<open>
  Two file systems: one where only the 2021 team statistics exist, and one where the 2020
  file exists but is an empty file, on which \<^verbatim>\<open>pd.read_csv\<close> raises.
\<close>

definition only_2021 :: files where
  "only_2021 = [''data/2021/team_stats.csv'' \<mapsto> Inr team_table]"

definition empty_2020_file :: files where
  "empty_2020_file =
     [''data/2020/team_stats.csv'' \<mapsto> Inl (EmptyDataError ''No columns to parse from file''),
      ''data/2021/team_stats.csv'' \<mapsto> Inr team_table]"

text \<open>A classification library on numbers, and a trained model as it would be saved.\<close>

definition toy_sklearn :: "(nat, nat, nat, nat, nat) sklearn" where
  "toy_sklearn =
     \<lparr>new_classifier = (\<lambda>c p. Inr 0), fit = (\<lambda>est X y. Inr (est + X + y)),
      classifier_predict = (\<lambda>est X. Inr (est + X)),
      scores = (\<lambda>y r. Inr [(''accuracy'', if y = r then 1 else 0)])\<rparr>"

definition saved_svm :: "(nat, nat) model_obj" where
  "saved_svm = \<lparr>py_class = SVMModel, model_params = [], model = Some 3, is_trained = True\<rparr>"

section \<open>The recency-weighted aggregator\<close>

lemma stamp_loop_eq:
  "stamp_loop recent bw ew items acc =
     acc @ map (\<lambda>(y, df). stamp recent bw ew y df) (filter (\<lambda>(y, df). \<not> df_empty df) items)"
  by (induction items arbitrary: acc) auto

lemma filter_nonempty_Nil:
  "filter (\<lambda>(y, df). \<not> df_empty df) d = [] \<longleftrightarrow> (\<forall>p\<in>set d. df_empty (snd p))"
  by (auto simp: filter_empty_conv)

lemma weight_by_recency_eq:
  "weight_by_recency d e b w =
     (if d = [] then Inl (ValueError ''No data provided'')
      else if \<forall>p\<in>set d. df_empty (snd p)
        then Inl (ValueError ''No valid data frames to combine'')
      else Inr (pd_concat (map (\<lambda>(y, df). stamp (recent_years e (sort (map fst d))) b w y df)
                  (filter (\<lambda>(y, df). \<not> df_empty df) d))))"
  by (simp add: weight_by_recency_def Let_def stamp_loop_eq filter_nonempty_Nil)

lemma weight_by_recency_returns:
  assumes "\<exists>p\<in>set d. \<not> df_empty (snd p)"
  shows "\<exists>out. weight_by_recency d e b w = Inr out"
proof -
  from assms have "d \<noteq> []" and "\<not> (\<forall>p\<in>set d. df_empty (snd p))" by auto
  then show ?thesis by (simp add: weight_by_recency_eq)
qed

text \<open>The function evaluated step by step.\<close>

lemma weight_by_recency_eval:
  assumes "d \<noteq> []"
    and "recent_years e (sort (map fst d)) = recent"
    and "map (\<lambda>(y, df). stamp recent b w y df) (filter (\<lambda>(y, df). \<not> df_empty df) d) = dfs"
    and "dfs \<noteq> []"
    and "foldl union_labels [] (map columns dfs) = labels"
    and "concat (map rows dfs) = all_rows"
    and "filter (\<lambda>c. common_dtype (map (\<lambda>r. map_of r c) all_rows) = Float64) labels = fc"
    and "map (cast_row fc) all_rows = rs"
  shows "weight_by_recency d e b w = Inr \<lparr>columns = labels, rows = rs\<rparr>"
proof -
  from assms(3,4) have "filter (\<lambda>(y, df). \<not> df_empty df) d \<noteq> []"
    by auto
  then have "\<not> (\<forall>p\<in>set d. df_empty (snd p))"
    by (simp add: filter_nonempty_Nil)
  with assms(1) have "weight_by_recency d e b w = Inr (pd_concat dfs)"
    unfolding weight_by_recency_eq assms(2) assms(3) by simp
  also have "pd_concat dfs = \<lparr>columns = labels, rows = rs\<rparr>"
    unfolding pd_concat_def Let_def assms(5) assms(6) assms(7) assms(8) ..
  finally show ?thesis .
qed

lemma rows_stamp:
  "rows (stamp recent b w y df) =
     map (\<lambda>r. AList.update ''weight'' (FloatCell (if y \<in> set recent then w else b))
                 (AList.update ''year'' (IntCell y) r)) (rows df)"
  by (simp add: stamp_def set_column_def Let_def)

lemma rows_stamped_tables:
  "concat (map rows (map (\<lambda>(y, df). stamp recent b w y df)
       (filter (\<lambda>(y, df). \<not> df_empty df) d))) = stamped_rows recent b w d"
  by (simp add: stamped_rows_def rows_stamp comp_def case_prod_unfold)

lemma map_of_stamped_row:
  "map_of (AList.update ''weight'' wv (AList.update ''year'' yv r)) ''year'' = Some yv"
  "map_of (AList.update ''weight'' wv (AList.update ''year'' yv r)) ''weight'' = Some wv"
  by (simp_all add: update_conv')

lemma stamped_rows_cells:
  assumes "r \<in> set (stamped_rows recent b w d)"
  shows "\<exists>y. y \<in> fst ` set d \<and> map_of r ''year'' = Some (IntCell y) \<and>
           map_of r ''weight'' = Some (FloatCell (if y \<in> set recent then w else b))"
proof -
  from assms obtain y df r0 where "(y, df) \<in> set d"
    and r: "r = AList.update ''weight'' (FloatCell (if y \<in> set recent then w else b))
                  (AList.update ''year'' (IntCell y) r0)"
    unfolding stamped_rows_def by auto
  then have "y \<in> fst ` set d" by force
  then show ?thesis unfolding r map_of_stamped_row by blast
qed

text \<open>Reading a cell of a converted row.\<close>

lemma map_of_cast_row:
  "map_of (cast_row fc r) c =
     map_option (\<lambda>v. if c \<in> set fc then upcast v else v) (map_of r c)"
  by (induction r) (auto simp: cast_row_def)


lemma labels_cast_row: "map fst (cast_row fc r) = map fst r"
  by (induction r) (auto simp: cast_row_def)


text \<open>The year column of the stamped rows is an integer column, so it is never converted.\<close>

lemma year_not_float:
  "common_dtype (map (\<lambda>r. map_of r ''year'') (stamped_rows recent b w d)) \<noteq> Float64"
proof -
  have "list_all is_int (map (\<lambda>r. map_of r ''year'') (stamped_rows recent b w d))"
    using stamped_rows_cells [of _ recent b w d] by (fastforce simp: list_all_iff)
  then show ?thesis by (simp add: common_dtype_def)
qed

lemma rows_weight_by_recency:
  assumes "weight_by_recency d e b w = Inr out"
  shows "rows out =
     map (cast_row
           (filter (\<lambda>c. common_dtype (map (\<lambda>r. map_of r c)
                           (stamped_rows (recent_years e (sort (map fst d))) b w d)) = Float64)
              (columns out)))
       (stamped_rows (recent_years e (sort (map fst d))) b w d)"
proof -
  have "out = pd_concat (map (\<lambda>(y, df). stamp (recent_years e (sort (map fst d))) b w y df)
                  (filter (\<lambda>(y, df). \<not> df_empty df) d))"
    using assms by (simp add: weight_by_recency_eq split: if_splits)
  then have "rows out = rows (pd_concat (map (\<lambda>(y, df). stamp (recent_years e (sort (map fst d))) b w y df)
                  (filter (\<lambda>(y, df). \<not> df_empty df) d)))"
    and "columns out = columns (pd_concat (map (\<lambda>(y, df). stamp (recent_years e (sort (map fst d))) b w y df)
                  (filter (\<lambda>(y, df). \<not> df_empty df) d)))"
    by simp_all
  then show ?thesis
    unfolding pd_concat_def Let_def rows_stamped_tables by simp
qed





lemma bit_length_le: "m < 2 ^ k \<Longrightarrow> bit_length m \<le> k"
proof (induction k arbitrary: m)
  case 0
  then show ?case by (simp add: bit_length.simps)
next
  case (Suc k)
  show ?case
  proof (cases "m = 0")
    case True
    then show ?thesis by (simp add: bit_length.simps)
  next
    case False
    from Suc.prems have "m div 2 < 2 ^ k" by simp
    from Suc.IH [OF this] False show ?thesis
      by (subst bit_length.simps) simp
  qed
qed

text \<open>Integers below \<open>2^53\<close> in absolute value are converted exactly.\<close>

lemma float64_of_int_exact:
  assumes "\<bar>n\<bar> < 2 ^ 53"
  shows "float64_of_int n = of_int n"
proof -
  have small: "round_to_53_bits m = m" if "m < 2 ^ 53" for m
  proof -
    from bit_length_le [OF that] have "bit_length m - 53 = 0" by simp
    then show ?thesis by (simp add: round_to_53_bits_def Let_def)
  qed
  show ?thesis
  proof (cases "n < 0")
    case True
    with assms have "nat (- n) < 2 ^ 53" by (simp add: nat_less_iff)
    from small [OF this] True show ?thesis by (simp add: float64_of_int_def)
  next
    case False
    with assms have "nat n < 2 ^ 53" by (simp add: nat_less_iff)
    from small [OF this] False show ?thesis by (simp add: float64_of_int_def)
  qed
qed

text \<open>
  For a positive \<open>emphasis_years\<close> the slice the code takes is the specification's window.
\<close>

lemma recent_years_window: "0 < e \<Longrightarrow> recent_years e ys = emphasis_window e ys"
  by (auto simp: recent_years_def emphasis_window_def slice_from_def Let_def min_def max_def
        nat_diff_distrib intro!: arg_cong[where f="\<lambda>n. drop n ys"])



lemma length_stamped_rows:
  "length (stamped_rows recent b w d) = total_rows (filter (\<lambda>p. \<not> df_empty (snd p)) d)"
  unfolding stamped_rows_def total_rows_def
  by (simp add: length_concat comp_def case_prod_unfold row_count_def)

text \<open>The conversion leaves the year and the weight of a stamped row as they are.\<close>

lemma cast_keeps_stamp:
  assumes "r \<in> set (stamped_rows recent b w d)"
    and "fc = filter (\<lambda>c. common_dtype (map (\<lambda>r. map_of r c)
                 (stamped_rows recent b w d)) = Float64) cols"
  shows "map_of (cast_row fc r) ''year'' = map_of r ''year''"
    and "map_of (cast_row fc r) ''weight'' = map_of r ''weight''"
proof -
  from stamped_rows_cells [OF assms(1)] obtain y where
    y: "map_of r ''year'' = Some (IntCell y)"
       "map_of r ''weight'' = Some (FloatCell (if y \<in> set recent then w else b))"
    by blast
  have "''year'' \<notin> set fc"
    using year_not_float [of recent b w d] assms(2) by simp
  then show "map_of (cast_row fc r) ''year'' = map_of r ''year''"
    by (simp add: map_of_cast_row option.map_ident)
  show "map_of (cast_row fc r) ''weight'' = map_of r ''weight''"
    by (simp add: map_of_cast_row y(2))
qed

lemmas example_defs =
  weight_by_recency_def recent_years_def slice_from_def stamp_def set_column_def
  pd_concat_def union_labels_def cast_row_def common_dtype_def float64_of_int_exact
  df_empty_def team_table_def no_row_table_def no_column_table_def four_years_def
  games_table_def mixed_years_def emphasis_window_def total_rows_def row_count_def Let_def

text \<open>
  C3. \<open>weight_by_recency\<close> fails with the ValueError \<open>No data provided\<close> exactly on the empty
  mapping, with the ValueError \<open>No valid data frames to combine\<close> exactly on a non-empty
  mapping all of whose tables are empty (two different messages), and returns a table
  exactly when some table of the mapping is not empty.
\<close>

theorem weight_by_recency_failures:
  "(weight_by_recency d e b w = Inl (ValueError ''No data provided'') \<longleftrightarrow> d = []) \<and>
   (weight_by_recency d e b w = Inl (ValueError ''No valid data frames to combine'')
      \<longleftrightarrow> d \<noteq> [] \<and> (\<forall>p\<in>set d. df_empty (snd p))) \<and>
   ((\<exists>out. weight_by_recency d e b w = Inr out) \<longleftrightarrow> (\<exists>p\<in>set d. \<not> df_empty (snd p)))"
  by (auto simp: weight_by_recency_eq)

theorem weight_by_recency_failures_witness:
  "weight_by_recency [] 2 1 2 = Inl (ValueError ''No data provided'') \<and>
   weight_by_recency [(2020, no_row_table), (2021, no_column_table)] 2 1 2
     = Inl (ValueError ''No valid data frames to combine'') \<and>
   weight_by_recency [(2020, no_row_table), (2021, team_table)] 2 1 2
     = Inr \<lparr>columns = [''team'', ''year'', ''weight''],
            rows = [[(''team'', StrCell ''A''), (''year'', IntCell 2021),
                     (''weight'', FloatCell 2)]]\<rparr>"
  using weight_by_recency_failures [of "[]" 2 1 2]
    weight_by_recency_failures [of "[(2020, no_row_table), (2021, no_column_table)]" 2 1 2]
    weight_by_recency_failures [of "[(2020, no_row_table), (2021, team_table)]" 2 1 2]
  by (simp add: example_defs)

text \<open>
  C1 (as amended). For a non-empty mapping of year to non-empty table and a positive
  \<open>emphasis_years\<close>, \<open>weight_by_recency\<close> returns a table each of whose rows carries its
  year and a weight that is \<open>base_weight\<close> or \<open>emphasis_weight\<close>: \<open>emphasis_weight\<close> when
  the year lies in the suffix of the ascending-sorted year list of length
  \<open>min(emphasis_years, |years|)\<close>, and \<open>base_weight\<close> otherwise. When the two weights differ,
  the weight is \<open>emphasis_weight\<close> if and only if the year lies in that suffix.
\<close>

theorem weight_by_recency_weights:
  assumes "d \<noteq> []" and "\<forall>p\<in>set d. \<not> df_empty (snd p)" and "0 < e"
  shows "\<exists>out. weight_by_recency d e b w = Inr out \<and>
     (\<forall>r\<in>set (rows out). \<exists>y wt.
        map_of r ''year'' = Some (IntCell y) \<and>
        map_of r ''weight'' = Some (FloatCell wt) \<and>
        (wt = b \<or> wt = w) \<and>
        wt = (if y \<in> set (emphasis_window e (sort (map fst d))) then w else b) \<and>
        (b \<noteq> w \<longrightarrow> (wt = w \<longleftrightarrow> y \<in> set (emphasis_window e (sort (map fst d))))))"
proof -
  from assms(1,2) have "\<exists>p\<in>set d. \<not> df_empty (snd p)"
    by (cases d) auto
  then obtain out where out: "weight_by_recency d e b w = Inr out"
    using weight_by_recency_returns by blast
  have "\<exists>y wt. map_of r ''year'' = Some (IntCell y) \<and>
        map_of r ''weight'' = Some (FloatCell wt) \<and>
        (wt = b \<or> wt = w) \<and>
        wt = (if y \<in> set (emphasis_window e (sort (map fst d))) then w else b) \<and>
        (b \<noteq> w \<longrightarrow> (wt = w \<longleftrightarrow> y \<in> set (emphasis_window e (sort (map fst d)))))"
    if "r \<in> set (rows out)" for r
  proof -
    from that obtain r0 where r0: "r0 \<in> set (stamped_rows (recent_years e (sort (map fst d))) b w d)"
      and r: "r = cast_row (filter (\<lambda>c. common_dtype (map (\<lambda>r. map_of r c)
                           (stamped_rows (recent_years e (sort (map fst d))) b w d)) = Float64)
              (columns out)) r0"
      unfolding rows_weight_by_recency [OF out] by auto
    from stamped_rows_cells [OF r0] obtain y where
      "map_of r0 ''year'' = Some (IntCell y)"
      "map_of r0 ''weight''
         = Some (FloatCell (if y \<in> set (recent_years e (sort (map fst d))) then w else b))"
      by blast
    then have "map_of r ''year'' = Some (IntCell y)"
      and "map_of r ''weight''
         = Some (FloatCell (if y \<in> set (emphasis_window e (sort (map fst d))) then w else b))"
      unfolding r using cast_keeps_stamp [OF r0 refl] recent_years_window [OF assms(3)]
      by simp_all
    then show ?thesis by auto
  qed
  with out show ?thesis by blast
qed

text \<open>
  The specification's example: of the years 2020 to 2023 with \<open>emphasis_years = 2\<close>, the
  rows of 2022 and 2023 get the emphasis weight and those of 2020 and 2021 the base
  weight.
\<close>

theorem weight_by_recency_weights_witness:
  "four_years \<noteq> [] \<and> (0::int) < 2 \<and>
   emphasis_window 2 (sort (map fst four_years)) = [2022, 2023] \<and>
   weight_by_recency four_years 2 1 2 =
     Inr \<lparr>columns = [''team'', ''year'', ''weight''],
          rows = [[(''team'', StrCell ''A''), (''year'', IntCell 2020), (''weight'', FloatCell 1)],
                  [(''team'', StrCell ''A''), (''year'', IntCell 2021), (''weight'', FloatCell 1)],
                  [(''team'', StrCell ''A''), (''year'', IntCell 2022), (''weight'', FloatCell 2)],
                  [(''team'', StrCell ''A''), (''year'', IntCell 2023), (''weight'', FloatCell 2)]]\<rparr>"
proof -
  have window: "emphasis_window 2 (sort (map fst four_years)) = [2022, 2023]"
    by (simp add: four_years_def emphasis_window_def)
  have "weight_by_recency four_years 2 1 2 =
     Inr \<lparr>columns = [''team'', ''year'', ''weight''],
          rows = [[(''team'', StrCell ''A''), (''year'', IntCell 2020), (''weight'', FloatCell 1)],
                  [(''team'', StrCell ''A''), (''year'', IntCell 2021), (''weight'', FloatCell 1)],
                  [(''team'', StrCell ''A''), (''year'', IntCell 2022), (''weight'', FloatCell 2)],
                  [(''team'', StrCell ''A''), (''year'', IntCell 2023), (''weight'', FloatCell 2)]]\<rparr>"
    by (rule weight_by_recency_eval
      [where recent = "[2022, 2023]"
         and dfs = "[\<lparr>columns = [''team'', ''year'', ''weight''],
                     rows = [[(''team'', StrCell ''A''), (''year'', IntCell 2020), (''weight'', FloatCell 1)]]\<rparr>,
                    \<lparr>columns = [''team'', ''year'', ''weight''],
                     rows = [[(''team'', StrCell ''A''), (''year'', IntCell 2021), (''weight'', FloatCell 1)]]\<rparr>,
                    \<lparr>columns = [''team'', ''year'', ''weight''],
                     rows = [[(''team'', StrCell ''A''), (''year'', IntCell 2022), (''weight'', FloatCell 2)]]\<rparr>,
                    \<lparr>columns = [''team'', ''year'', ''weight''],
                     rows = [[(''team'', StrCell ''A''), (''year'', IntCell 2023), (''weight'', FloatCell 2)]]\<rparr>]"
         and all_rows = "[[(''team'', StrCell ''A''), (''year'', IntCell 2020), (''weight'', FloatCell 1)],
                  [(''team'', StrCell ''A''), (''year'', IntCell 2021), (''weight'', FloatCell 1)],
                  [(''team'', StrCell ''A''), (''year'', IntCell 2022), (''weight'', FloatCell 2)],
                  [(''team'', StrCell ''A''), (''year'', IntCell 2023), (''weight'', FloatCell 2)]]"
         and fc = "[''weight'']"])
      (simp_all add: example_defs)
  moreover have "four_years \<noteq> []" and "\<forall>p\<in>set four_years. \<not> df_empty (snd p)"
    by (simp_all add: four_years_def team_table_def df_empty_def)
  with weight_by_recency_weights [of four_years 2 1 2]
  have "\<exists>out. weight_by_recency four_years 2 1 2 = Inr out"
    by auto
  ultimately show ?thesis using window by (simp add: four_years_def)
qed

text \<open>
  The claim as stated fails in two ways. With \<open>emphasis_years = 0\<close> the slice
  \<^verbatim>\<open>years[-0:]\<close> is the whole list, so the row of 2020 gets the emphasis weight 2 although
  the suffix of length \<open>min(0, 1) = 0\<close> holds no year. With equal weights, the row of 2020
  carries the emphasis weight although only 2021 lies in the suffix of length 1.
\<close>

theorem weight_by_recency_weights_counterexample:
  "weight_by_recency [(2020, team_table)] 0 1 2 =
     Inr \<lparr>columns = [''team'', ''year'', ''weight''],
          rows = [[(''team'', StrCell ''A''), (''year'', IntCell 2020), (''weight'', FloatCell 2)]]\<rparr> \<and>
   emphasis_window 0 (sort (map fst [(2020, team_table)])) = [] \<and>
   weight_by_recency [(2020, team_table), (2021, team_table)] 1 2 2 =
     Inr \<lparr>columns = [''team'', ''year'', ''weight''],
          rows = [[(''team'', StrCell ''A''), (''year'', IntCell 2020), (''weight'', FloatCell 2)],
                  [(''team'', StrCell ''A''), (''year'', IntCell 2021), (''weight'', FloatCell 2)]]\<rparr> \<and>
   emphasis_window 1 (sort (map fst [(2020, team_table), (2021, team_table)])) = [2021]"
  by (simp add: example_defs)

text \<open>
  C2 (as amended). When some table of the mapping is not empty, \<open>weight_by_recency\<close>
  returns a table whose row count is the sum of the row counts of the input tables that
  are not empty, a table being empty when it has no row or no column; such tables are
  skipped. When every input table that has rows also has a column, this is the sum of
  the row counts of all input tables.
\<close>

theorem weight_by_recency_row_count:
  assumes "\<exists>p\<in>set d. \<not> df_empty (snd p)"
  shows "\<exists>out. weight_by_recency d e b w = Inr out \<and>
     row_count out = total_rows (filter (\<lambda>p. \<not> df_empty (snd p)) d) \<and>
     ((\<forall>p\<in>set d. rows (snd p) \<noteq> [] \<longrightarrow> columns (snd p) \<noteq> []) \<longrightarrow>
        row_count out = total_rows d)"
proof -
  from assms obtain out where out: "weight_by_recency d e b w = Inr out"
    using weight_by_recency_returns by blast
  have 1: "row_count out = total_rows (filter (\<lambda>p. \<not> df_empty (snd p)) d)"
    unfolding row_count_def rows_weight_by_recency [OF out]
    by (simp add: length_stamped_rows)
  have 2: "total_rows (filter (\<lambda>p. \<not> df_empty (snd p)) d) = total_rows d"
    if "\<forall>p\<in>set d. rows (snd p) \<noteq> [] \<longrightarrow> columns (snd p) \<noteq> []"
    using that unfolding total_rows_def
    by (induction d) (auto simp: df_empty_def row_count_def)
  from out 1 2 show ?thesis by auto
qed

theorem weight_by_recency_row_count_witness:
  "total_rows four_years = 4 \<and>
   total_rows ((2019, no_row_table) # four_years) = 4 \<and>
   map_sum id row_count (weight_by_recency ((2019, no_row_table) # four_years) 2 1 2) = Inr 4"
proof -
  have "\<exists>p\<in>set ((2019, no_row_table) # four_years). \<not> df_empty (snd p)"
    by (simp add: four_years_def team_table_def df_empty_def)
  from weight_by_recency_row_count [OF this, of 2 1 2]
  obtain out where "weight_by_recency ((2019, no_row_table) # four_years) 2 1 2 = Inr out"
    and "row_count out
           = total_rows (filter (\<lambda>p. \<not> df_empty (snd p)) ((2019, no_row_table) # four_years))"
    by blast
  then have "map_sum id row_count (weight_by_recency ((2019, no_row_table) # four_years) 2 1 2)
               = Inr 4"
    by (simp add: four_years_def team_table_def no_row_table_def df_empty_def total_rows_def
          row_count_def)
  then show ?thesis
    by (simp add: four_years_def team_table_def no_row_table_def total_rows_def row_count_def)
qed

text \<open>
  The claim as stated fails on a table with rows and no column: pandas reports it as
  empty, the loop skips it, and its two rows are missing from the result.
\<close>

theorem weight_by_recency_row_count_counterexample:
  "total_rows [(2020, no_column_table), (2021, team_table)] = 3 \<and>
   map_sum id row_count (weight_by_recency [(2020, no_column_table), (2021, team_table)] 2 1 2)
     = Inr 1"
  by (simp add: example_defs)



section \<open>Feature tables and the training split\<close>

text \<open>Three evaluations of \<open>weight_by_recency\<close> with its default weights.\<close>

lemma weighted_team_2020:
  "weight_by_recency [(2020, team_table)] 2 1 2 =
     Inr \<lparr>columns = [''team'', ''year'', ''weight''],
          rows = [[(''team'', StrCell ''A''), (''year'', IntCell 2020), (''weight'', FloatCell 2)]]\<rparr>"
  by (rule weight_by_recency_eval
      [where recent = "[2020]"
         and dfs = "[\<lparr>columns = [''team'', ''year'', ''weight''],
                     rows = [[(''team'', StrCell ''A''), (''year'', IntCell 2020),
                              (''weight'', FloatCell 2)]]\<rparr>]"
         and all_rows = "[[(''team'', StrCell ''A''), (''year'', IntCell 2020),
                           (''weight'', FloatCell 2)]]"
         and fc = "[''weight'']"])
    (simp_all add: example_defs)

lemma weighted_team_2021:
  "weight_by_recency [(2021, team_table)] 2 1 2 =
     Inr \<lparr>columns = [''team'', ''year'', ''weight''],
          rows = [[(''team'', StrCell ''A''), (''year'', IntCell 2021), (''weight'', FloatCell 2)]]\<rparr>"
  by (rule weight_by_recency_eval
      [where recent = "[2021]"
         and dfs = "[\<lparr>columns = [''team'', ''year'', ''weight''],
                     rows = [[(''team'', StrCell ''A''), (''year'', IntCell 2021),
                              (''weight'', FloatCell 2)]]\<rparr>]"
         and all_rows = "[[(''team'', StrCell ''A''), (''year'', IntCell 2021),
                           (''weight'', FloatCell 2)]]"
         and fc = "[''weight'']"])
    (simp_all add: example_defs)

lemma weighted_games_2021:
  "weight_by_recency [(2021, games_table)] 2 1 2 =
     Inr \<lparr>columns = [''team'', ''outcome'', ''year'', ''weight''],
          rows = [[(''team'', StrCell ''A''), (''outcome'', IntCell 1),
                   (''year'', IntCell 2021), (''weight'', FloatCell 2)],
                  [(''team'', StrCell ''B''), (''outcome'', IntCell 0),
                   (''year'', IntCell 2021), (''weight'', FloatCell 2)]]\<rparr>"
  by (rule weight_by_recency_eval
      [where recent = "[2021]"
         and dfs = "[\<lparr>columns = [''team'', ''outcome'', ''year'', ''weight''],
                     rows = [[(''team'', StrCell ''A''), (''outcome'', IntCell 1),
                              (''year'', IntCell 2021), (''weight'', FloatCell 2)],
                             [(''team'', StrCell ''B''), (''outcome'', IntCell 0),
                              (''year'', IntCell 2021), (''weight'', FloatCell 2)]]\<rparr>]"
         and all_rows = "[[(''team'', StrCell ''A''), (''outcome'', IntCell 1),
                   (''year'', IntCell 2021), (''weight'', FloatCell 2)],
                  [(''team'', StrCell ''B''), (''outcome'', IntCell 0),
                   (''year'', IntCell 2021), (''weight'', FloatCell 2)]]"
         and fc = "[''weight'']"])
    (simp_all add: example_defs)

text \<open>
  C5. \<open>create_team_features\<close> and \<open>create_matchup_features\<close> pass the result of
  \<open>weight_by_recency\<close> through: whenever \<open>create_team_features\<close> returns, its result is
  that of \<open>weight_by_recency\<close> on the team statistics with the default weights, whatever
  the rankings argument is, and whenever \<open>create_matchup_features\<close> returns, its result is
  that of \<open>weight_by_recency\<close> on the games, whatever the team features are (the two even
  fail alike).
\<close>

theorem feature_functions_pass_through:
  "(create_team_features team_stats rankings e = Inr r \<longrightarrow>
      weight_by_recency team_stats e 1 2 = Inr r) \<and>
   (create_matchup_features team_features games e = Inr r' \<longrightarrow>
      weight_by_recency games e 1 2 = Inr r') \<and>
   create_matchup_features team_features games e = weight_by_recency games e 1 2"
  by (auto simp: create_team_features_def create_matchup_features_def
        split: sum.splits option.splits if_splits)

theorem feature_functions_pass_through_witness:
  "create_team_features [(2020, team_table)] (Some [(2021, games_table)]) 2 =
     Inr \<lparr>columns = [''team'', ''year'', ''weight''],
          rows = [[(''team'', StrCell ''A''), (''year'', IntCell 2020), (''weight'', FloatCell 2)]]\<rparr> \<and>
   weight_by_recency [(2020, team_table)] 2 1 2 =
     Inr \<lparr>columns = [''team'', ''year'', ''weight''],
          rows = [[(''team'', StrCell ''A''), (''year'', IntCell 2020), (''weight'', FloatCell 2)]]\<rparr> \<and>
   create_matchup_features no_row_table [(2020, team_table)] 2 =
     Inr \<lparr>columns = [''team'', ''year'', ''weight''],
          rows = [[(''team'', StrCell ''A''), (''year'', IntCell 2020), (''weight'', FloatCell 2)]]\<rparr>"
proof -
  let ?out = "\<lparr>columns = [''team'', ''year'', ''weight''],
          rows = [[(''team'', StrCell ''A''), (''year'', IntCell 2020), (''weight'', FloatCell 2)]]\<rparr>"
  have team: "create_team_features [(2020, team_table)] (Some [(2021, games_table)]) 2 = Inr ?out"
    by (simp add: create_team_features_def weighted_team_2020 weighted_games_2021)
  have matchup: "create_matchup_features no_row_table [(2020, team_table)] 2 = Inr ?out"
    by (simp add: create_matchup_features_def weighted_team_2020)
  from feature_functions_pass_through
    [of "[(2020, team_table)]" "Some [(2021, games_table)]" 2 ?out
        no_row_table "[(2020, team_table)]" ?out]
  have "weight_by_recency [(2020, team_table)] 2 1 2 = Inr ?out"
    using team by simp
  with team matchup show ?thesis by simp
qed

lemma drop_column_props:
  assumes "drop_column c df = Inr X"
  shows "columns X = removeAll c (columns df)"
    and "length (rows X) = length (rows df)"
    and "i < length (rows df) \<Longrightarrow> map_of (rows X ! i) c = None"
    and "i < length (rows df) \<Longrightarrow> c' \<noteq> c \<Longrightarrow> map_of (rows X ! i) c' = map_of (rows df ! i) c'"
  using assms by (auto simp: drop_column_def delete_conv' split: if_splits)

lemma drop_outcome_absent:
  "''outcome'' \<notin> set (columns df) \<Longrightarrow>
     drop_column ''outcome'' df = Inl (KeyError ''['outcome'] not found in axis'')"
  by (simp add: drop_column_def py_repr_def)

text \<open>
  C8 (as amended). \<open>prepare_training_data\<close> first builds the team features from the
  filtered team statistics and rankings, then the combined matchup table \<open>mf\<close> from the
  filtered games. When one of these two steps fails, \<open>prepare_training_data\<close> fails with
  that step's error. When both return and \<open>mf\<close> has a column \<open>outcome\<close>, it returns the
  pair \<open>(X, y)\<close> where \<open>X\<close> is \<open>mf\<close> without that column (the same rows, every other cell
  unchanged) and \<open>y\<close> is the \<open>outcome\<close> cell of every row. When both return and \<open>mf\<close> has
  no such column, it fails with the KeyError \<open>['outcome'] not found in axis\<close>.
\<close>

theorem prepare_training_data_split:
  "(\<forall>err. create_team_features (filter_years target_years team_stats)
             (Some (filter_years target_years rankings)) 2 = Inl err \<longrightarrow>
      prepare_training_data team_stats rankings games target_years = Inl err) \<and>
   (\<forall>team_features.
      create_team_features (filter_years target_years team_stats)
        (Some (filter_years target_years rankings)) 2 = Inr team_features \<longrightarrow>
      (\<forall>err. create_matchup_features team_features (filter_years target_years games) 2 = Inl err
         \<longrightarrow> prepare_training_data team_stats rankings games target_years = Inl err) \<and>
      (\<forall>mf. create_matchup_features team_features (filter_years target_years games) 2 = Inr mf
         \<longrightarrow>
         (''outcome'' \<in> set (columns mf) \<longrightarrow>
            (\<exists>X y. prepare_training_data team_stats rankings games target_years = Inr (X, y) \<and>
               columns X = removeAll ''outcome'' (columns mf) \<and>
               ''outcome'' \<notin> set (columns X) \<and>
               length (rows X) = length (rows mf) \<and> length y = length (rows mf) \<and>
               (\<forall>i<length (rows mf).
                  map_of (rows X ! i) ''outcome'' = None \<and>
                  (\<forall>c. c \<noteq> ''outcome'' \<longrightarrow> map_of (rows X ! i) c = map_of (rows mf ! i) c) \<and>
                  y ! i = map_of (rows mf ! i) ''outcome''))) \<and>
         (''outcome'' \<notin> set (columns mf) \<longrightarrow>
            prepare_training_data team_stats rankings games target_years
              = Inl (KeyError ''['outcome'] not found in axis''))))"
proof (intro conjI allI impI)
  fix err
  assume "create_team_features (filter_years target_years team_stats)
             (Some (filter_years target_years rankings)) 2 = Inl err"
  then show "prepare_training_data team_stats rankings games target_years = Inl err"
    by (simp add: prepare_training_data_def)
next
  fix team_features err
  assume "create_team_features (filter_years target_years team_stats)
             (Some (filter_years target_years rankings)) 2 = Inr team_features"
    and "create_matchup_features team_features (filter_years target_years games) 2 = Inl err"
  then show "prepare_training_data team_stats rankings games target_years = Inl err"
    by (simp add: prepare_training_data_def)
next
  fix team_features mf
  assume tf: "create_team_features (filter_years target_years team_stats)
             (Some (filter_years target_years rankings)) 2 = Inr team_features"
    and mf: "create_matchup_features team_features (filter_years target_years games) 2 = Inr mf"
    and present: "''outcome'' \<in> set (columns mf)"
  then obtain X where X: "drop_column ''outcome'' mf = Inr X"
    by (simp add: drop_column_def)
  from present have y: "get_column ''outcome'' mf = Inr (map (\<lambda>r. map_of r ''outcome'') (rows mf))"
    by (simp add: get_column_def)
  have "prepare_training_data team_stats rankings games target_years
          = Inr (X, map (\<lambda>r. map_of r ''outcome'') (rows mf))"
    using tf mf X y by (simp add: prepare_training_data_def)
  moreover have "columns X = removeAll ''outcome'' (columns mf)"
    and "length (rows X) = length (rows mf)"
    using drop_column_props [OF X] by simp_all
  moreover have "\<forall>i<length (rows mf).
                map_of (rows X ! i) ''outcome'' = None \<and>
                (\<forall>c. c \<noteq> ''outcome'' \<longrightarrow> map_of (rows X ! i) c = map_of (rows mf ! i) c)"
    using drop_column_props(3,4) [OF X] by simp
  ultimately show "\<exists>X y. prepare_training_data team_stats rankings games target_years = Inr (X, y) \<and>
             columns X = removeAll ''outcome'' (columns mf) \<and>
             ''outcome'' \<notin> set (columns X) \<and>
             length (rows X) = length (rows mf) \<and> length y = length (rows mf) \<and>
             (\<forall>i<length (rows mf).
                map_of (rows X ! i) ''outcome'' = None \<and>
                (\<forall>c. c \<noteq> ''outcome'' \<longrightarrow> map_of (rows X ! i) c = map_of (rows mf ! i) c) \<and>
                y ! i = map_of (rows mf ! i) ''outcome'')"
    by simp
next
  fix team_features mf
  assume "create_team_features (filter_years target_years team_stats)
             (Some (filter_years target_years rankings)) 2 = Inr team_features"
    and "create_matchup_features team_features (filter_years target_years games) 2 = Inr mf"
    and "''outcome'' \<notin> set (columns mf)"
  then show "prepare_training_data team_stats rankings games target_years
              = Inl (KeyError ''['outcome'] not found in axis'')"
    by (simp add: prepare_training_data_def drop_outcome_absent)
qed

theorem prepare_training_data_split_witness:
  "prepare_training_data [(2020, team_table), (2021, team_table)] []
      [(2020, games_table), (2021, games_table)] [2021] =
     Inr (\<lparr>columns = [''team'', ''year'', ''weight''],
           rows = [[(''team'', StrCell ''A''), (''year'', IntCell 2021), (''weight'', FloatCell 2)],
                   [(''team'', StrCell ''B''), (''year'', IntCell 2021), (''weight'', FloatCell 2)]]\<rparr>,
          [Some (IntCell 1), Some (IntCell 0)]) \<and>
   prepare_training_data [(2020, team_table), (2021, team_table)] []
      [(2020, team_table), (2021, team_table)] [2021]
     = Inl (KeyError ''['outcome'] not found in axis'') \<and>
   prepare_training_data [(2020, team_table)] [] [(2021, games_table)] [2021]
     = Inl (ValueError ''No data provided'')"
proof -
  let ?tf = "\<lparr>columns = [''team'', ''year'', ''weight''],
          rows = [[(''team'', StrCell ''A''), (''year'', IntCell 2021), (''weight'', FloatCell 2)]]\<rparr>"
  let ?mf = "\<lparr>columns = [''team'', ''outcome'', ''year'', ''weight''],
          rows = [[(''team'', StrCell ''A''), (''outcome'', IntCell 1),
                   (''year'', IntCell 2021), (''weight'', FloatCell 2)],
                  [(''team'', StrCell ''B''), (''outcome'', IntCell 0),
                   (''year'', IntCell 2021), (''weight'', FloatCell 2)]]\<rparr>"
  have tf: "create_team_features (filter_years [2021] [(2020, team_table), (2021, team_table)])
              (Some (filter_years [2021] [])) 2 = Inr ?tf"
    by (simp add: filter_years_def create_team_features_def weighted_team_2021)
  have mf: "create_matchup_features ?tf
              (filter_years [2021] [(2020, games_table), (2021, games_table)]) 2 = Inr ?mf"
    by (simp add: filter_years_def create_matchup_features_def weighted_games_2021)
  have mf': "create_matchup_features ?tf
              (filter_years [2021] [(2020, team_table), (2021, team_table)]) 2 = Inr ?tf"
    by (simp add: filter_years_def create_matchup_features_def weighted_team_2021)
  have no_stats: "create_team_features (filter_years [2021] [(2020, team_table)])
              (Some (filter_years [2021] [])) 2 = Inl (ValueError ''No data provided'')"
    by (simp add: filter_years_def create_team_features_def weight_by_recency_eq)
  from prepare_training_data_split
    [of "[2021]" "[(2020, team_table), (2021, team_table)]" "[]"
        "[(2020, games_table), (2021, games_table)]"] tf mf
  obtain X y where split:
    "prepare_training_data [(2020, team_table), (2021, team_table)] []
       [(2020, games_table), (2021, games_table)] [2021] = Inr (X, y)"
    by auto
  have "prepare_training_data [(2020, team_table), (2021, team_table)] []
       [(2020, games_table), (2021, games_table)] [2021]
     = Inr (\<lparr>columns = [''team'', ''year'', ''weight''],
           rows = [[(''team'', StrCell ''A''), (''year'', IntCell 2021), (''weight'', FloatCell 2)],
                   [(''team'', StrCell ''B''), (''year'', IntCell 2021), (''weight'', FloatCell 2)]]\<rparr>,
          [Some (IntCell 1), Some (IntCell 0)])"
    using split tf mf
    by (simp add: prepare_training_data_def drop_column_def get_column_def)
  moreover from prepare_training_data_split
    [of "[2021]" "[(2020, team_table), (2021, team_table)]" "[]"
        "[(2020, team_table), (2021, team_table)]"] tf mf'
  have "prepare_training_data [(2020, team_table), (2021, team_table)] []
      [(2020, team_table), (2021, team_table)] [2021]
        = Inl (KeyError ''['outcome'] not found in axis'')"
    by simp
  moreover from prepare_training_data_split
    [of "[2021]" "[(2020, team_table)]" "[]" "[(2021, games_table)]"] no_stats
  have "prepare_training_data [(2020, team_table)] [] [(2021, games_table)] [2021]
     = Inl (ValueError ''No data provided'')"
    by simp
  ultimately show ?thesis by simp
qed

text \<open>
  The claim as stated fails when the team statistics are empty: the games of 2021 give
  a combined matchup table with an \<open>outcome\<close> column, but \<open>prepare_training_data\<close> raises
  the ValueError of \<open>create_team_features\<close> before it builds that table.
\<close>

theorem prepare_training_data_split_counterexample:
  "create_matchup_features team_table (filter_years [2021] [(2021, games_table)]) 2 =
     Inr \<lparr>columns = [''team'', ''outcome'', ''year'', ''weight''],
          rows = [[(''team'', StrCell ''A''), (''outcome'', IntCell 1),
                   (''year'', IntCell 2021), (''weight'', FloatCell 2)],
                  [(''team'', StrCell ''B''), (''outcome'', IntCell 0),
                   (''year'', IntCell 2021), (''weight'', FloatCell 2)]]\<rparr> \<and>
   prepare_training_data [] [] [(2021, games_table)] [2021]
     = Inl (ValueError ''No data provided'')"
proof -
  have "weight_by_recency [] 2 1 2 = Inl (ValueError ''No data provided'')"
    by (simp add: weight_by_recency_def)
  then have "prepare_training_data [] [] [(2021, games_table)] [2021]
     = Inl (ValueError ''No data provided'')"
    by (simp add: prepare_training_data_def filter_years_def create_team_features_def)
  then show ?thesis
    by (simp add: filter_years_def create_matchup_features_def weighted_games_2021)
qed

section \<open>The multi-year loader\<close>

lemma load_years_ok:
  assumes "\<forall>y\<in>set years. \<forall>e. ld fs y data_dir = Inl e \<longrightarrow> (\<exists>m. e = FileNotFoundError m)"
  shows "\<exists>res. load_years fs ld data_dir years result printed
                 = (printed @ skipped_warnings fs ld data_dir years, Inr res) \<and>
           map_of res = (\<lambda>y. if y \<in> set years
                              then (case ld fs y data_dir of Inr df \<Rightarrow> Some df
                                    | Inl _ \<Rightarrow> map_of result y)
                              else map_of result y) \<and>
           (distinct (map fst result) \<longrightarrow> distinct (map fst res))"
  using assms
proof (induction years arbitrary: result printed)
  case Nil
  then show ?case by (simp add: skipped_warnings_def)
next
  case (Cons year years)
  show ?case
  proof (cases "ld fs year data_dir")
    case (Inl e)
    with Cons.prems obtain m where e: "e = FileNotFoundError m" by auto
    from Cons.prems have "\<forall>y\<in>set years. \<forall>e. ld fs y data_dir = Inl e \<longrightarrow> (\<exists>m. e = FileNotFoundError m)"
      by simp
    from Cons.IH [OF this, of result "printed @ [''Warning: '' @ m]"]
    obtain res where res: "load_years fs ld data_dir years result (printed @ [''Warning: '' @ m])
                 = ((printed @ [''Warning: '' @ m]) @ skipped_warnings fs ld data_dir years, Inr res)"
      "map_of res = (\<lambda>y. if y \<in> set years
                              then (case ld fs y data_dir of Inr df \<Rightarrow> Some df
                                    | Inl _ \<Rightarrow> map_of result y)
                              else map_of result y)"
      "distinct (map fst result) \<longrightarrow> distinct (map fst res)"
      by blast
    have "load_years fs ld data_dir (year # years) result printed
            = (printed @ skipped_warnings fs ld data_dir (year # years), Inr res)"
      using Inl e res(1) by (simp add: skipped_warnings_def)
    moreover have "map_of res = (\<lambda>y. if y \<in> set (year # years)
                              then (case ld fs y data_dir of Inr df \<Rightarrow> Some df
                                    | Inl _ \<Rightarrow> map_of result y)
                              else map_of result y)"
      using Inl res(2) by (auto simp: fun_eq_iff)
    ultimately show ?thesis using res(3) by blast
  next
    case (Inr df)
    from Cons.prems have "\<forall>y\<in>set years. \<forall>e. ld fs y data_dir = Inl e \<longrightarrow> (\<exists>m. e = FileNotFoundError m)"
      by simp
    from Cons.IH [OF this, of "AList.update year df result" printed]
    obtain res where res: "load_years fs ld data_dir years (AList.update year df result) printed
                 = (printed @ skipped_warnings fs ld data_dir years, Inr res)"
      "map_of res = (\<lambda>y. if y \<in> set years
                              then (case ld fs y data_dir of Inr df \<Rightarrow> Some df
                                    | Inl _ \<Rightarrow> map_of (AList.update year df result) y)
                              else map_of (AList.update year df result) y)"
      "distinct (map fst (AList.update year df result)) \<longrightarrow> distinct (map fst res)"
      by blast
    have "load_years fs ld data_dir (year # years) result printed
            = (printed @ skipped_warnings fs ld data_dir (year # years), Inr res)"
      using Inr res(1) by (simp add: skipped_warnings_def)
    moreover have "map_of res = (\<lambda>y. if y \<in> set (year # years)
                              then (case ld fs y data_dir of Inr df \<Rightarrow> Some df
                                    | Inl _ \<Rightarrow> map_of result y)
                              else map_of result y)"
      using Inr res(2) by (auto simp: fun_eq_iff update_conv' split: sum.splits)
    moreover have "distinct (map fst result) \<longrightarrow> distinct (map fst res)"
      using res(3) by (simp add: distinct_update)
    ultimately show ?thesis by blast
  qed
qed

text \<open>
  The first retrieval that fails otherwise than by not-found ends the loop with its
  error; the years requested before it have printed their warnings.
\<close>

lemma load_years_raises:
  assumes "\<forall>y\<in>set pre. \<forall>e. ld fs y data_dir = Inl e \<longrightarrow> (\<exists>m. e = FileNotFoundError m)"
    and "ld fs year data_dir = Inl err" and "\<forall>m. err \<noteq> FileNotFoundError m"
  shows "load_years fs ld data_dir (pre @ year # post) result printed
           = (printed @ skipped_warnings fs ld data_dir pre, Inl err)"
  using assms(1)
proof (induction pre arbitrary: result printed)
  case Nil
  from assms(2,3) show ?case
    by (cases err) (simp_all add: skipped_warnings_def)
next
  case (Cons y pre)
  then have IH: "\<And>result printed. load_years fs ld data_dir (pre @ year # post) result printed
           = (printed @ skipped_warnings fs ld data_dir pre, Inl err)"
    by simp
  show ?case
  proof (cases "ld fs y data_dir")
    case (Inl e)
    with Cons.prems obtain m where "e = FileNotFoundError m" by auto
    with Inl show ?thesis by (simp add: IH skipped_warnings_def)
  next
    case (Inr df)
    then show ?thesis by (simp add: IH skipped_warnings_def)
  qed
qed

text \<open>
  C6 (as amended). Let the data-type tag be recognized. When each per-year retrieval
  either succeeds or signals not-found, \<open>load_multi_year_data\<close> raises nothing and
  returns a mapping whose keys are exactly the requested years whose retrieval
  succeeded, each with the table retrieved; it prints one warning for each requested
  year whose retrieval signalled not-found and leaves that year out, and when every year
  is not found the mapping is empty. A retrieval error of any other kind is not
  absorbed: at the first requested year whose retrieval fails otherwise than by
  not-found, the call raises that error, having printed the warnings of the not-found
  years requested before it.
\<close>

theorem load_multi_year_data_skips_missing:
  assumes "map_of loaders data_type = Some ld"
  shows "((\<forall>y\<in>set years. \<forall>e. ld fs y data_dir = Inl e \<longrightarrow> (\<exists>m. e = FileNotFoundError m)) \<longrightarrow>
          (\<exists>result. load_multi_year_data fs years data_type data_dir
                     = (skipped_warnings fs ld data_dir years, Inr result) \<and>
             distinct (map fst result) \<and>
             set (map fst result) = {y \<in> set years. \<exists>df. ld fs y data_dir = Inr df} \<and>
             (\<forall>y df. map_of result y = Some df \<longleftrightarrow> y \<in> set years \<and> ld fs y data_dir = Inr df) \<and>
             length (skipped_warnings fs ld data_dir years)
               = length (filter (\<lambda>y. \<exists>m. ld fs y data_dir = Inl (FileNotFoundError m)) years) \<and>
             ((\<forall>y\<in>set years. \<exists>m. ld fs y data_dir = Inl (FileNotFoundError m)) \<longrightarrow>
                result = []))) \<and>
         (\<forall>pre year post err.
            years = pre @ year # post \<and>
            (\<forall>y\<in>set pre. \<forall>e. ld fs y data_dir = Inl e \<longrightarrow> (\<exists>m. e = FileNotFoundError m)) \<and>
            ld fs year data_dir = Inl err \<and> (\<forall>m. err \<noteq> FileNotFoundError m) \<longrightarrow>
            load_multi_year_data fs years data_type data_dir
              = (skipped_warnings fs ld data_dir pre, Inl err))"
proof (intro conjI impI allI)
  assume ok: "\<forall>y\<in>set years. \<forall>e. ld fs y data_dir = Inl e \<longrightarrow> (\<exists>m. e = FileNotFoundError m)"
  from ok
    load_years_ok [where ld = ld and fs = fs and data_dir = data_dir and years = years
      and result = "[]" and printed = "[]"]
  obtain res where res: "load_years fs ld data_dir years [] []
                 = (skipped_warnings fs ld data_dir years, Inr res)"
      "map_of res = (\<lambda>y. if y \<in> set years
                              then (case ld fs y data_dir of Inr df \<Rightarrow> Some df
                                    | Inl _ \<Rightarrow> map_of ([] :: year_tables) y)
                              else map_of ([] :: year_tables) y)"
      "distinct (map fst res)"
    by auto
  have 1: "load_multi_year_data fs years data_type data_dir
                     = (skipped_warnings fs ld data_dir years, Inr res)"
    using assms res(1) by (simp add: load_multi_year_data_def)
  have 2: "\<forall>y df. map_of res y = Some df \<longleftrightarrow> y \<in> set years \<and> ld fs y data_dir = Inr df"
    unfolding res(2) by (auto split: sum.splits)
  have "fst ` set res = dom (map_of res)" by (simp add: dom_map_of_conv_image_fst)
  also have "\<dots> = {y \<in> set years. \<exists>df. ld fs y data_dir = Inr df}"
    using 2 by (auto simp: dom_def)
  finally have 3: "set (map fst res) = {y \<in> set years. \<exists>df. ld fs y data_dir = Inr df}"
    by simp
  have 4: "length (skipped_warnings fs ld data_dir years)
             = length (filter (\<lambda>y. \<exists>m. ld fs y data_dir = Inl (FileNotFoundError m)) years)"
    unfolding skipped_warnings_def
    by (induction years) (auto split: sum.splits exn.splits)
  have 5: "res = []" if "\<forall>y\<in>set years. \<exists>m. ld fs y data_dir = Inl (FileNotFoundError m)"
  proof -
    from that 3 have "set (map fst res) = {}" by auto
    then show ?thesis by simp
  qed
  from 1 2 3 4 5 res(3)
  show "\<exists>result. load_multi_year_data fs years data_type data_dir
                     = (skipped_warnings fs ld data_dir years, Inr result) \<and>
             distinct (map fst result) \<and>
             set (map fst result) = {y \<in> set years. \<exists>df. ld fs y data_dir = Inr df} \<and>
             (\<forall>y df. map_of result y = Some df \<longleftrightarrow> y \<in> set years \<and> ld fs y data_dir = Inr df) \<and>
             length (skipped_warnings fs ld data_dir years)
               = length (filter (\<lambda>y. \<exists>m. ld fs y data_dir = Inl (FileNotFoundError m)) years) \<and>
             ((\<forall>y\<in>set years. \<exists>m. ld fs y data_dir = Inl (FileNotFoundError m)) \<longrightarrow>
                result = [])"
    by blast
next
  fix pre year post err
  assume *: "years = pre @ year # post \<and>
            (\<forall>y\<in>set pre. \<forall>e. ld fs y data_dir = Inl e \<longrightarrow> (\<exists>m. e = FileNotFoundError m)) \<and>
            ld fs year data_dir = Inl err \<and> (\<forall>m. err \<noteq> FileNotFoundError m)"
  then have "load_years fs ld data_dir (pre @ year # post) [] []
               = ([] @ skipped_warnings fs ld data_dir pre, Inl err)"
    by (intro load_years_raises) simp_all
  with * assms show "load_multi_year_data fs years data_type data_dir
              = (skipped_warnings fs ld data_dir pre, Inl err)"
    by (simp add: load_multi_year_data_def)
qed

lemma str_int_examples: "str_int 2020 = ''2020''" "str_int 2021 = ''2021''"
  by (simp_all add: str_int_def nat_digits.simps)

text \<open>
  The specification's example: of the years 2020 and 2021 only the file of 2021 exists.
  And a request for 2019, 2020, 2021 where the file of 2019 is missing and the file of
  2020 is empty: one warning, then the error of \<^verbatim>\<open>pd.read_csv\<close>.
\<close>

theorem load_multi_year_data_skips_missing_witness:
  "map_of loaders ''team_stats'' = Some load_team_stats \<and>
   load_team_stats only_2021 2020 ''data''
     = Inl (FileNotFoundError ''Team stats file not found for year 2020'') \<and>
   load_team_stats only_2021 2021 ''data'' = Inr team_table \<and>
   load_multi_year_data only_2021 [2020, 2021] ''team_stats'' ''data''
     = ([''Warning: Team stats file not found for year 2020''], Inr [(2021, team_table)]) \<and>
   load_team_stats empty_2020_file 2020 ''data''
     = Inl (EmptyDataError ''No columns to parse from file'') \<and>
   load_multi_year_data empty_2020_file [2019, 2020, 2021] ''team_stats'' ''data''
     = ([''Warning: Team stats file not found for year 2019''],
        Inl (EmptyDataError ''No columns to parse from file''))"
proof -
  have ld: "map_of loaders ''team_stats'' = Some load_team_stats"
    by (simp add: loaders_def)
  have y2020: "load_team_stats only_2021 2020 ''data''
     = Inl (FileNotFoundError ''Team stats file not found for year 2020'')"
    by (simp add: load_team_stats_def path_join_def str_int_examples only_2021_def)
  have y2021: "load_team_stats only_2021 2021 ''data'' = Inr team_table"
    by (simp add: load_team_stats_def path_join_def str_int_examples only_2021_def)
  have ok: "\<forall>y\<in>set [2020, 2021]. \<forall>e. load_team_stats only_2021 y ''data'' = Inl e
              \<longrightarrow> (\<exists>m. e = FileNotFoundError m)"
    using y2020 y2021 by simp
  note skips = load_multi_year_data_skips_missing [OF ld]
  from skips [of "[2020, 2021]" only_2021 "''data''"] ok
  obtain result where result:
    "load_multi_year_data only_2021 [2020, 2021] ''team_stats'' ''data''
       = (skipped_warnings only_2021 load_team_stats ''data'' [2020, 2021], Inr result)"
    by blast
  have first: "load_multi_year_data only_2021 [2020, 2021] ''team_stats'' ''data''
     = ([''Warning: Team stats file not found for year 2020''], Inr [(2021, team_table)])"
    using result ld y2020 y2021 by (simp add: load_multi_year_data_def)
  have e2019: "load_team_stats empty_2020_file 2019 ''data''
     = Inl (FileNotFoundError ''Team stats file not found for year 2019'')"
    by (simp add: load_team_stats_def path_join_def str_int_def nat_digits.simps
          empty_2020_file_def)
  have e2020: "load_team_stats empty_2020_file 2020 ''data''
     = Inl (EmptyDataError ''No columns to parse from file'')"
    by (simp add: load_team_stats_def path_join_def str_int_examples empty_2020_file_def)
  have "[2019, 2020, 2021] = [2019] @ 2020 # [2021 :: int] \<and>
        (\<forall>y\<in>set [2019]. \<forall>e. load_team_stats empty_2020_file y ''data'' = Inl e
              \<longrightarrow> (\<exists>m. e = FileNotFoundError m)) \<and>
        load_team_stats empty_2020_file 2020 ''data''
          = Inl (EmptyDataError ''No columns to parse from file'') \<and>
        (\<forall>m. EmptyDataError ''No columns to parse from file'' \<noteq> FileNotFoundError m)"
    using e2019 e2020 by simp
  with skips [of "[2019, 2020, 2021]" empty_2020_file "''data''"]
  have "load_multi_year_data empty_2020_file [2019, 2020, 2021] ''team_stats'' ''data''
     = (skipped_warnings empty_2020_file load_team_stats ''data'' [2019],
        Inl (EmptyDataError ''No columns to parse from file''))"
    by blast
  then have second: "load_multi_year_data empty_2020_file [2019, 2020, 2021] ''team_stats'' ''data''
     = ([''Warning: Team stats file not found for year 2019''],
        Inl (EmptyDataError ''No columns to parse from file''))"
    using e2019 by (simp add: skipped_warnings_def)
  from ld y2020 y2021 first e2020 second show ?thesis by simp
qed

text \<open>
  The claim as stated fails when a retrieval fails otherwise than by not-found: the file
  of 2020 exists and is empty, \<^verbatim>\<open>pd.read_csv\<close> raises \<^verbatim>\<open>EmptyDataError\<close>, the handler
  for \<^verbatim>\<open>FileNotFoundError\<close> does not catch it, and the call raises although the tag is
  recognized and the file of 2021 could be loaded.
\<close>

theorem load_multi_year_data_counterexample:
  "load_multi_year_data empty_2020_file [2020, 2021] ''team_stats'' ''data''
     = ([], Inl (EmptyDataError ''No columns to parse from file''))"
  by (simp add: load_multi_year_data_def loaders_def load_team_stats_def path_join_def
        str_int_examples empty_2020_file_def)

text \<open>
  C7. On a data-type tag that is none of the four recognized ones,
  \<open>load_multi_year_data\<close> fails with the ValueError naming the tag, whatever the files
  are and without printing anything, so no retrieval was attempted; on a model-type tag
  that is none of the four recognized ones, \<open>create_model\<close> fails with the ValueError
  naming the tag and builds no model.
\<close>

theorem unknown_tag_fails_fast:
  "(data_type \<notin> {''team_stats'', ''rankings'', ''games'', ''tournament''} \<longrightarrow>
      load_multi_year_data fs years data_type data_dir =
        ([], Inl (ValueError (''Unknown data type: '' @ data_type @
           ''. Must be one of ['team_stats', 'rankings', 'games', 'tournament']'')))) \<and>
   (model_type \<notin> {''baseline'', ''random_forest'', ''gradient_boosting'', ''svm''} \<longrightarrow>
      (create_model model_type params :: exn + ('v, 'est) model_obj) =
        Inl (ValueError (''Unknown model type: '' @ model_type @
          ''. Must be one of ['baseline', 'random_forest', 'gradient_boosting', 'svm']'')))"
  by (simp add: load_multi_year_data_def loaders_def create_model_def model_classes_def)

theorem unknown_tag_fails_fast_witness:
  "load_multi_year_data only_2021 [2020, 2021] ''scores'' ''data'' =
     ([], Inl (ValueError
        ''Unknown data type: scores. Must be one of ['team_stats', 'rankings', 'games', 'tournament']'')) \<and>
   (create_model ''unknown'' None :: exn + (nat, nat) model_obj) =
     Inl (ValueError
        ''Unknown model type: unknown. Must be one of ['baseline', 'random_forest', 'gradient_boosting', 'svm']'')"
  using unknown_tag_fails_fast
    [where ?'v = nat and ?'est = nat,
      of "''scores''" only_2021 "[2020, 2021]" "''data''" "''unknown''" None]
  by simp

section \<open>The model factory\<close>

lemma train_success:
  assumes "train lib m X y = (Inr (), m')"
  shows "is_trained m' \<and> py_class m' \<noteq> BaseModel \<and> (\<exists>est. model m' = Some est)"
  using assms by (auto simp: train_def split: sum.splits if_splits)

text \<open>
  C9. On a freshly built model of any class, \<open>predict\<close> fails with the RuntimeError
  \<open>Model must be trained before making predictions\<close>, \<open>evaluate\<close> with the RuntimeError
  \<open>Model must be trained before evaluation\<close> and \<open>save\<close> with the RuntimeError
  \<open>Cannot save untrained model\<close>, leaving the file system as it was. After a \<open>train\<close>
  that returned, the model is trained and holds a classifier, \<open>predict\<close> is the
  classifier's prediction and \<open>evaluate\<close> scores that prediction: neither stops at the
  state check.
\<close>

theorem state_errors_before_train:
  "predict lib (init c p) X
     = Inl (RuntimeError ''Model must be trained before making predictions'') \<and>
   evaluate lib (init c p) X y = Inl (RuntimeError ''Model must be trained before evaluation'') \<and>
   save dump (init c p) filepath st = (Inl (RuntimeError ''Cannot save untrained model''), st) \<and>
   (train lib m X y = (Inr (), m') \<longrightarrow>
      is_trained m' \<and>
      (\<exists>est. model m' = Some est \<and>
         predict lib m' X' = classifier_predict lib est X' \<and>
         evaluate lib m' X' y' =
           (case classifier_predict lib est X' of
              Inl err \<Rightarrow> Inl err
            | Inr y_pred \<Rightarrow> scores lib y' y_pred)))"
proof (intro conjI impI)
  assume "train lib m X y = (Inr (), m')"
  from train_success [OF this] obtain est where
    m': "is_trained m'" "py_class m' \<noteq> BaseModel" "model m' = Some est"
    by blast
  show "is_trained m'" by (rule m'(1))
  show "\<exists>est. model m' = Some est \<and>
         predict lib m' X' = classifier_predict lib est X' \<and>
         evaluate lib m' X' y' =
           (case classifier_predict lib est X' of
              Inl err \<Rightarrow> Inl err
            | Inr y_pred \<Rightarrow> scores lib y' y_pred)"
    using m' by (simp add: predict_def evaluate_def predict_impl_def)
qed (simp_all add: predict_def evaluate_def save_def init_def)

theorem state_errors_before_train_witness:
  "predict toy_sklearn (init SVMModel None) 5
     = Inl (RuntimeError ''Model must be trained before making predictions'') \<and>
   train toy_sklearn (init SVMModel None) 1 2 = (Inr (), saved_svm) \<and>
   predict toy_sklearn saved_svm 5 = Inr 8 \<and>
   evaluate toy_sklearn saved_svm 5 8 = Inr [(''accuracy'', 1)]"
proof -
  have trained: "train toy_sklearn (init SVMModel None) 1 2 = (Inr (), saved_svm)"
    by (simp add: init_def train_def toy_sklearn_def saved_svm_def)
  from state_errors_before_train
    [of toy_sklearn SVMModel None 5 8 "\<lambda>path m st. (Inr (), st)" "''m.pkl''" "()"
        "init SVMModel None" saved_svm 5 8]
  have untrained: "predict toy_sklearn (init SVMModel None) 5
     = Inl (RuntimeError ''Model must be trained before making predictions'')"
    by blast
  from state_errors_before_train
    [of toy_sklearn SVMModel None 1 2 "\<lambda>path m st. (Inr (), st)" "''m.pkl''" "()"
        "init SVMModel None" saved_svm 5 8] trained
  obtain est where "model saved_svm = Some est"
    and "predict toy_sklearn saved_svm 5 = classifier_predict toy_sklearn est 5"
    and "evaluate toy_sklearn saved_svm 5 8 =
           (case classifier_predict toy_sklearn est 5 of
              Inl err \<Rightarrow> Inl err
            | Inr y_pred \<Rightarrow> scores toy_sklearn 8 y_pred)"
    by blast
  then have "predict toy_sklearn saved_svm 5 = Inr 8"
    and "evaluate toy_sklearn saved_svm 5 8 = Inr [(''accuracy'', 1)]"
    by (simp_all add: saved_svm_def toy_sklearn_def)
  with trained untrained show ?thesis by simp
qed

text \<open>
  C10. Let \<open>load\<close> be called on a variant class (a class other than \<open>BaseModel\<close>) and let
  deserialization give an object. Then \<open>load\<close> fails with a TypeError if and only if the
  object's variant is not the requested class, the message naming the requested class;
  and when the variant is the requested class, \<open>load\<close> returns the object.
\<close>

theorem load_checks_variant:
  assumes "c \<noteq> BaseModel" and "unpickle filepath = Inr obj"
  shows "((\<exists>msg. load unpickle c filepath = Inl (TypeError msg)) \<longleftrightarrow> variant_of obj \<noteq> Some c) \<and>
         (variant_of obj \<noteq> Some c \<longrightarrow>
            load unpickle c filepath
              = Inl (TypeError (''Loaded model is not an instance of '' @ class_name c))) \<and>
         (variant_of obj = Some c \<longrightarrow> load unpickle c filepath = Inr obj)"
  using assms by (auto simp: load_def isinstance_def variant_of_def split: py_object.splits)

theorem load_checks_variant_witness:
  "load (\<lambda>path. Inr (ModelObject saved_svm)) SVMModel ''models/svm.pkl''
     = Inr (ModelObject saved_svm) \<and>
   load (\<lambda>path. Inr (ModelObject saved_svm)) BaselineModel ''models/svm.pkl''
     = Inl (TypeError ''Loaded model is not an instance of BaselineModel'')"
  using load_checks_variant
    [of SVMModel "\<lambda>path. Inr (ModelObject saved_svm)" "''models/svm.pkl''" "ModelObject saved_svm"]
    load_checks_variant
    [of BaselineModel "\<lambda>path. Inr (ModelObject saved_svm)" "''models/svm.pkl''"
        "ModelObject saved_svm"]
  by (simp add: variant_of_def saved_svm_def class_name_def)

end
